theory Spec2Isabelle
  imports Complex_Main "HOL-Library.AList"
begin

section \<open>Python values\<close>

text \<open>
  The utilities of \<^verbatim>\<open>src/utils\<close> are dynamically typed. A value is one of the
  Python values that reach them: \<^verbatim>\<open>None\<close>, a bool, an int (unbounded), a float, a
  str, a list or a dict. A number is an int or a float; a float is finite (\<open>NFloat\<close>
  of the rational it denotes), an infinity (\<open>PosInf\<close>, \<open>NegInf\<close>) or not a number
  (\<open>NaN\<close>). A dict is an association list in insertion order with distinct keys, as
  Python keeps it. Strings are ASCII text.
\<close>

datatype number = NInt int | NFloat rat | PosInf | NegInf | NaN

datatype pyval =
    VNone
  | VBool bool
  | VNum number
  | VStr string
  | VList "pyval list"
  | VDict "(string \<times> pyval) list"

type_synonym dict = "(string \<times> pyval) list"

text \<open>
  Python's comparisons of numbers. Ints and finite floats are compared by their exact
  values; the infinities lie below and above every other number; every comparison with
  nan is false.
\<close>

fun num_less :: "number \<Rightarrow> number \<Rightarrow> bool" where
  "num_less NaN y = False"
| "num_less x NaN = False"
| "num_less x NegInf = False"
| "num_less NegInf y = True"
| "num_less PosInf y = False"
| "num_less x PosInf = True"
| "num_less (NInt i) (NInt j) = (i < j)"
| "num_less (NInt i) (NFloat r) = (of_int i < r)"
| "num_less (NFloat r) (NInt j) = (r < of_int j)"
| "num_less (NFloat r) (NFloat q) = (r < q)"

definition num_greater :: "number \<Rightarrow> number \<Rightarrow> bool" where
  "num_greater x y = num_less y x"

fun num_le :: "number \<Rightarrow> number \<Rightarrow> bool" where
  "num_le NaN y = False"
| "num_le x NaN = False"
| "num_le NegInf y = True"
| "num_le x NegInf = False"
| "num_le x PosInf = True"
| "num_le PosInf y = False"
| "num_le (NInt i) (NInt j) = (i \<le> j)"
| "num_le (NInt i) (NFloat r) = (of_int i \<le> r)"
| "num_le (NFloat r) (NInt j) = (r \<le> of_int j)"
| "num_le (NFloat r) (NFloat q) = (r \<le> q)"

text \<open>\<^verbatim>\<open>type(value).__name__\<close>\<close>

fun type_name :: "pyval \<Rightarrow> string" where
  "type_name VNone = ''NoneType''"
| "type_name (VBool _) = ''bool''"
| "type_name (VNum (NInt _)) = ''int''"
| "type_name (VNum _) = ''float''"
| "type_name (VStr _) = ''str''"
| "type_name (VList _) = ''list''"
| "type_name (VDict _) = ''dict''"

text \<open>Truth value testing, as \<^verbatim>\<open>if x:\<close> and \<^verbatim>\<open>not x\<close> do it.\<close>

fun truthy :: "pyval \<Rightarrow> bool" where
  "truthy VNone = False"
| "truthy (VBool b) = b"
| "truthy (VNum (NInt i)) = (i \<noteq> 0)"
| "truthy (VNum (NFloat r)) = (r \<noteq> 0)"
| "truthy (VNum n) = True"
| "truthy (VStr s) = (s \<noteq> [])"
| "truthy (VList xs) = (xs \<noteq> [])"
| "truthy (VDict d) = (d \<noteq> [])"

text \<open>\<^verbatim>\<open>str.lower()\<close> on ASCII text: the letters A to Z move to a to z.\<close>

definition lower_char :: "char \<Rightarrow> char" where
  "lower_char c =
     (case map_of (zip ''ABCDEFGHIJKLMNOPQRSTUVWXYZ'' ''abcdefghijklmnopqrstuvwxyz'') c of
        Some l \<Rightarrow> l
      | None \<Rightarrow> c)"

definition lower :: "string \<Rightarrow> string" where
  "lower s = map lower_char s"

text \<open>\<^verbatim>\<open>str.strip()\<close>: leading and trailing ASCII whitespace removed.\<close>

definition is_space :: "char \<Rightarrow> bool" where
  "is_space c = (c \<in> set [CHR 0x09, CHR 0x0A, CHR 0x0B, CHR 0x0C, CHR 0x0D,
                           CHR 0x1C, CHR 0x1D, CHR 0x1E, CHR 0x1F, CHR 0x20])"

definition strip :: "string \<Rightarrow> string" where
  "strip s = rev (dropWhile is_space (rev (dropWhile is_space s)))"

text \<open>
  \<^verbatim>\<open>response.update(extra)\<close>: the entries of \<open>extra\<close> are stored one after the
  other; a key already present keeps its place and takes the new value, a new key is
  appended.
\<close>

definition dict_update :: "dict \<Rightarrow> dict \<Rightarrow> dict" where
  "dict_update response extra = fold (\<lambda>(k, v). AList.update k v) extra response"

text \<open>The apostrophe, written by its code inside message texts.\<close>

definition apostrophe :: string where
  "apostrophe = [CHR 0x27]"

section \<open>Response formatter (\<^verbatim>\<open>utils/response_formatter.py\<close>)\<close>

text \<open>
  \<^verbatim>\<open>success(message, data=None, **extra)\<close>. The keyword dictionary \<open>extra\<close>
  holds the keyword arguments that are not named parameters; Python's call binding
  keeps the names \<^verbatim>\<open>message\<close> and \<^verbatim>\<open>data\<close> out of it. The debug log line
  has no effect on the result and is left out.
\<close>

definition success :: "string \<Rightarrow> pyval \<Rightarrow> dict \<Rightarrow> dict" where
  "success message data extra =
     (let response = [(''success'', VBool True), (''message'', VStr message)];
          response = (if data \<noteq> VNone then AList.update ''data'' data response else response)
      in dict_update response extra)"

text \<open>
  \<^verbatim>\<open>error(message, error_code=None, details=None, **extra)\<close>: the code is stored
  when it is truthy (neither \<^verbatim>\<open>None\<close> nor the empty string).
\<close>

definition error :: "string \<Rightarrow> string option \<Rightarrow> pyval \<Rightarrow> dict \<Rightarrow> dict" where
  "error message error_code details extra =
     (let response = [(''success'', VBool False), (''message'', VStr message)];
          response = (case error_code of
                        None \<Rightarrow> response
                      | Some c \<Rightarrow> if c \<noteq> [] then AList.update ''error_code'' (VStr c) response
                                  else response);
          response = (if details \<noteq> VNone then AList.update ''details'' details response
                      else response)
      in dict_update response extra)"

text \<open>\<^verbatim>\<open>info(message, data=None, **extra)\<close>\<close>

definition info :: "string \<Rightarrow> pyval \<Rightarrow> dict \<Rightarrow> dict" where
  "info message data extra =
     (let response = [(''success'', VBool True), (''message'', VStr message),
                      (''type'', VStr ''info'')];
          response = (if data \<noteq> VNone then AList.update ''data'' data response else response)
      in dict_update response extra)"

definition legacy_success :: "string \<Rightarrow> string" where
  "legacy_success message = ''Success: '' @ message"

definition legacy_error :: "string \<Rightarrow> string" where
  "legacy_error message = ''Error: '' @ message"

section \<open>Exceptions\<close>

text \<open>
  The exception classes of the repository and the two kinds of foreign exception that
  an \<^verbatim>\<open>except\<close> clause tells apart. \<^verbatim>\<open>utils/error_handler.py\<close> declares
  \<^verbatim>\<open>ResolveError(Exception)\<close> and its subclasses \<^verbatim>\<open>ConnectionError\<close>,
  \<^verbatim>\<open>ValidationError\<close> and \<^verbatim>\<open>OperationError\<close>; \<^verbatim>\<open>utils/validation.py\<close>
  declares a class of its own, also called \<^verbatim>\<open>ValidationError(Exception)\<close>, which is
  the one every validator raises. The two classes of that name are unrelated, so the
  handler's one is written \<open>Handler_ValidationError\<close> here. \<open>Other_Exception\<close> is any
  other class that derives from \<^verbatim>\<open>Exception\<close>, by its name; \<open>Base_Exception\<close> is a
  class that derives from \<^verbatim>\<open>BaseException\<close> only (\<^verbatim>\<open>KeyboardInterrupt\<close>,
  \<^verbatim>\<open>SystemExit\<close>, \<^verbatim>\<open>GeneratorExit\<close>), which \<^verbatim>\<open>except Exception\<close> lets pass.
  An exception value carries its class and its text \<^verbatim>\<open>str(e)\<close>.
\<close>

datatype exn_class =
    ResolveError
  | ConnectionError
  | Handler_ValidationError
  | OperationError
  | ValidationError
  | FusionNodeError
  | Other_Exception string
  | Base_Exception string

datatype exn = Exn exn_class string

fun class_of :: "exn \<Rightarrow> exn_class" where
  "class_of (Exn c m) = c"

fun str_of :: "exn \<Rightarrow> string" where
  "str_of (Exn c m) = m"

text \<open>\<^verbatim>\<open>isinstance(e, Exception)\<close>: what \<^verbatim>\<open>except Exception\<close> catches.\<close>

fun is_Exception :: "exn \<Rightarrow> bool" where
  "is_Exception (Exn (Base_Exception n) m) = False"
| "is_Exception (Exn c m) = True"

section \<open>Validation (\<^verbatim>\<open>utils/validation.py\<close>)\<close>

text \<open>
  The validators build their messages with f-strings. The text Python's \<^verbatim>\<open>str()\<close>
  gives a number or a list is not the repository's code: it is the parameter
  \<open>py_str\<close> of the validators that print one. A validator that returns nothing
  returns \<open>Inr ()\<close>; a raise is \<open>Inl\<close> of the exception.
\<close>

text \<open>\<^verbatim>\<open>isinstance(value, (int, float))\<close>; a bool is an int (0 or 1) in Python.\<close>

fun as_number :: "pyval \<Rightarrow> number option" where
  "as_number (VBool b) = Some (NInt (if b then 1 else 0))"
| "as_number (VNum n) = Some n"
| "as_number v = None"

definition validate_range ::
  "(pyval \<Rightarrow> string) \<Rightarrow> pyval \<Rightarrow> number \<Rightarrow> number \<Rightarrow> string \<Rightarrow> exn + unit" where
  "validate_range py_str value min_val max_val name =
     (case as_number value of
        None \<Rightarrow> Inl (Exn ValidationError (name @ '' must be a number, got '' @ type_name value))
      | Some v \<Rightarrow>
          if num_less v min_val \<or> num_greater v max_val
          then Inl (Exn ValidationError
                 (name @ '' must be between '' @ py_str (VNum min_val) @ '' and ''
                    @ py_str (VNum max_val) @ '', got '' @ py_str value))
          else Inr ())"

text \<open>\<^verbatim>\<open>list.index(x)\<close>: the first position of \<open>x\<close>, or no position (ValueError).\<close>

fun list_index :: "'a list \<Rightarrow> 'a \<Rightarrow> nat option" where
  "list_index [] y = None"
| "list_index (x # xs) y =
     (if x = y then Some 0 else map_option Suc (list_index xs y))"

definition not_a_choice :: "(pyval \<Rightarrow> string) \<Rightarrow> string \<Rightarrow> string list \<Rightarrow> string \<Rightarrow> exn" where
  "not_a_choice py_str name choices v =
     Exn ValidationError
       (name @ '' must be one of '' @ py_str (VList (map VStr choices)) @ '', got ''
          @ apostrophe @ v @ apostrophe)"

definition validate_choice ::
  "(pyval \<Rightarrow> string) \<Rightarrow> pyval \<Rightarrow> string list \<Rightarrow> string \<Rightarrow> bool \<Rightarrow> exn + string" where
  "validate_choice py_str value choices name case_sensitive =
     (case value of
        VStr v \<Rightarrow>
          if case_sensitive then
            (if v \<notin> set choices then Inl (not_a_choice py_str name choices v) else Inr v)
          else
            (let value_lower = lower v;
                 choices_lower = map lower choices
             in if value_lower \<notin> set choices_lower
                then Inl (not_a_choice py_str name choices v)
                else (case list_index choices_lower value_lower of
                        None \<Rightarrow> Inl (Exn (Other_Exception ''ValueError'')
                                       (apostrophe @ value_lower @ apostrophe
                                          @ '' is not in list''))
                      | Some index \<Rightarrow>
                          if index < length choices then Inr (choices ! index)
                          else Inl (Exn (Other_Exception ''IndexError'')
                                      ''list index out of range'')))
      | _ \<Rightarrow> Inl (Exn ValidationError (name @ '' must be a string, got '' @ type_name value)))"

text \<open>\<^verbatim>\<open>isinstance(value, int)\<close>\<close>

fun as_int :: "pyval \<Rightarrow> int option" where
  "as_int (VBool b) = Some (if b then 1 else 0)"
| "as_int (VNum (NInt i)) = Some i"
| "as_int v = None"

definition validate_positive_integer :: "(pyval \<Rightarrow> string) \<Rightarrow> pyval \<Rightarrow> string \<Rightarrow> exn + unit" where
  "validate_positive_integer py_str value name =
     (case as_int value of
        None \<Rightarrow> Inl (Exn ValidationError (name @ '' must be an integer, got '' @ type_name value))
      | Some i \<Rightarrow>
          if i \<le> 0 then Inl (Exn ValidationError (name @ '' must be positive, got '' @ py_str value))
          else Inr ())"

definition validate_non_empty_string :: "pyval \<Rightarrow> string \<Rightarrow> exn + unit" where
  "validate_non_empty_string value name =
     (case value of
        VStr v \<Rightarrow>
          if strip v = [] then Inl (Exn ValidationError (name @ '' cannot be empty''))
          else Inr ()
      | _ \<Rightarrow> Inl (Exn ValidationError (name @ '' must be a string, got '' @ type_name value)))"

section \<open>Error handler (\<^verbatim>\<open>utils/error_handler.py\<close>)\<close>

text \<open>
  A Python function that may raise and may change the host is a function from its
  arguments and the state before to an outcome and the state after: \<open>Inr\<close> of the value
  returned or \<open>Inl\<close> of the exception raised. \<^verbatim>\<open>handle_resolve_errors(func)\<close> is the
  wrapper below; the \<^verbatim>\<open>except\<close> clauses are tried in the order of the source. The log
  lines have no effect on the result and are left out.
\<close>

type_synonym ('a, 's) pyfun = "'a \<Rightarrow> 's \<Rightarrow> (exn + pyval) \<times> 's"

definition handle_resolve_errors :: "('a, 's) pyfun \<Rightarrow> ('a, 's) pyfun" where
  "handle_resolve_errors func args s =
     (case func args s of
        (Inr v, s') \<Rightarrow> (Inr v, s')
      | (Inl e, s') \<Rightarrow>
          if class_of e = ConnectionError
            then (Inr (VDict (error (str_of e) (Some ''CONNECTION_ERROR'') VNone [])), s')
          else if class_of e = Handler_ValidationError
            then (Inr (VDict (error (str_of e) (Some ''VALIDATION_ERROR'') VNone [])), s')
          else if class_of e = OperationError
            then (Inr (VDict (error (str_of e) (Some ''OPERATION_ERROR'') VNone [])), s')
          else if is_Exception e
            then (Inr (VDict (error (''Unexpected error: '' @ str_of e)
                                (Some ''INTERNAL_ERROR'') VNone [])), s')
          else (Inl e, s'))"

text \<open>
  The failures that the handler classifies: its own connection, validation and
  operation classes.
\<close>

definition classified :: "exn \<Rightarrow> bool" where
  "classified e = (class_of e \<in> {ConnectionError, Handler_ValidationError, OperationError})"

section \<open>Printing values in the examples\<close>

text \<open>
  Python's \<^verbatim>\<open>str()\<close> on \<^verbatim>\<open>None\<close>, bools, ints and strs: the instance of the
  validators' parameter \<open>py_str\<close> that the concrete examples use. The values that the
  examples never print (finite floats, lists, dicts) get the empty text.
\<close>

definition digit_char :: "nat \<Rightarrow> char" where
  "digit_char n = ''0123456789'' ! n"

fun str_nat :: "nat \<Rightarrow> string" where
  "str_nat n = (if n < 10 then [digit_char n] else str_nat (n div 10) @ [digit_char (n mod 10)])"

declare str_nat.simps [simp del]

definition str_int :: "int \<Rightarrow> string" where
  "str_int i = (if i < 0 then ''-'' @ str_nat (nat (- i)) else str_nat (nat i))"

fun py_str_basic :: "pyval \<Rightarrow> string" where
  "py_str_basic VNone = ''None''"
| "py_str_basic (VBool b) = (if b then ''True'' else ''False'')"
| "py_str_basic (VNum (NInt i)) = str_int i"
| "py_str_basic (VNum PosInf) = ''inf''"
| "py_str_basic (VNum NegInf) = ''-inf''"
| "py_str_basic (VNum NaN) = ''nan''"
| "py_str_basic (VStr s) = s"
| "py_str_basic v = []"

section \<open>The host application\<close>

text \<open>
  The host (DaVinci Resolve) is outside the repository; the code reaches it through the
  handle \<^verbatim>\<open>resolve\<close>. Its state, as far as the modelled operations see it:
  \<^item> \<open>active_page\<close>: the active page, which \<^verbatim>\<open>GetCurrentPage()\<close> returns as a str;
  \<^item> \<open>fault\<close>: when set, every call on the handle raises this exception (the
    connection is lost);
  \<^item> \<open>replies\<close>: how the host answers the coming \<^verbatim>\<open>OpenPage\<close> calls, one reply
    per call: it opens the page and returns true, it refuses and returns false, or the
    call raises. When the list is used up the host opens every page asked for;
  \<^item> \<open>requests\<close>: the page names of the \<^verbatim>\<open>OpenPage\<close> calls made so far, in order;
  \<^item> \<open>has_project_manager\<close>, \<open>open_project\<close>: what \<^verbatim>\<open>GetProjectManager()\<close>
    and \<^verbatim>\<open>GetCurrentProject()\<close> find.
  Nothing restricts the replies: the theorems hold for every host behaviour, and the
  hypotheses name the replies they need.
\<close>

datatype reply = Opens | Refuses | Raises exn

record project =
  project_name :: string
  settings :: "(string \<times> string) list"
  accepts_settings :: bool

record host =
  active_page :: string
  fault :: "exn option"
  replies :: "reply list"
  requests :: "string list"
  has_project_manager :: bool
  open_project :: "project option"

text \<open>
  A Python argument is the host handle (the object \<^verbatim>\<open>scriptapp("Resolve")\<close> gave)
  or a plain value; the handle that was never obtained is \<^verbatim>\<open>None\<close>.
\<close>

datatype arg = Handle | Val pyval

fun arg_truthy :: "arg \<Rightarrow> bool" where
  "arg_truthy Handle = True"
| "arg_truthy (Val v) = truthy v"

text \<open>\<^verbatim>\<open>hasattr(x, 'GetCurrentPage')\<close>\<close>

fun has_GetCurrentPage :: "arg \<Rightarrow> bool" where
  "has_GetCurrentPage Handle = True"
| "has_GetCurrentPage (Val v) = False"

text \<open>Calling a method that a plain value does not have raises AttributeError.\<close>

definition no_attribute :: "pyval \<Rightarrow> string \<Rightarrow> exn" where
  "no_attribute v method =
     Exn (Other_Exception ''AttributeError'')
       (apostrophe @ type_name v @ apostrophe @ '' object has no attribute ''
          @ apostrophe @ method @ apostrophe)"

fun GetCurrentPage :: "arg \<Rightarrow> host \<Rightarrow> exn + string" where
  "GetCurrentPage (Val v) h = Inl (no_attribute v ''GetCurrentPage'')"
| "GetCurrentPage Handle h = (case fault h of Some e \<Rightarrow> Inl e | None \<Rightarrow> Inr (active_page h))"

fun OpenPage :: "arg \<Rightarrow> string \<Rightarrow> host \<Rightarrow> (exn + bool) \<times> host" where
  "OpenPage (Val v) p h = (Inl (no_attribute v ''OpenPage''), h)"
| "OpenPage Handle p h =
     (let h1 = h\<lparr>requests := requests h @ [p]\<rparr>
      in case fault h of
           Some e \<Rightarrow> (Inl e, h1)
         | None \<Rightarrow>
             (case replies h of
                [] \<Rightarrow> (Inr True, h1\<lparr>active_page := p\<rparr>)
              | Opens # rs \<Rightarrow> (Inr True, h1\<lparr>active_page := p, replies := rs\<rparr>)
              | Refuses # rs \<Rightarrow> (Inr False, h1\<lparr>replies := rs\<rparr>)
              | Raises e # rs \<Rightarrow> (Inl e, h1\<lparr>replies := rs\<rparr>)))"

text \<open>\<^verbatim>\<open>validate_resolve_connection(resolve)\<close> of \<^verbatim>\<open>utils/validation.py\<close>\<close>

definition validate_resolve_connection :: "arg \<Rightarrow> host \<Rightarrow> exn + unit" where
  "validate_resolve_connection resolve h =
     (if resolve = Val VNone then Inl (Exn ValidationError ''Not connected to DaVinci Resolve'')
      else (case GetCurrentPage resolve h of
              Inr p \<Rightarrow> Inr ()
            | Inl e \<Rightarrow>
                if is_Exception e
                then Inl (Exn ValidationError (''DaVinci Resolve connection error: '' @ str_of e))
                else Inl e))"

text \<open>\<^verbatim>\<open>validate_resolve_state(resolve)\<close> of \<^verbatim>\<open>utils/error_handler.py\<close>\<close>

definition validate_resolve_state :: "arg \<Rightarrow> host \<Rightarrow> exn + unit" where
  "validate_resolve_state resolve h =
     (if resolve = Val VNone then Inl (Exn ConnectionError ''Not connected to DaVinci Resolve'')
      else (case GetCurrentPage resolve h of
              Inr p \<Rightarrow> Inr ()
            | Inl e \<Rightarrow>
                if is_Exception e
                then Inl (Exn ConnectionError (''DaVinci Resolve connection error: '' @ str_of e))
                else Inl e))"

section \<open>Page manager (\<^verbatim>\<open>utils/page_manager.py\<close>)\<close>

type_synonym kwargs = "(string \<times> arg) list"

type_synonym operation = "arg list \<Rightarrow> kwargs \<Rightarrow> host \<Rightarrow> (exn + pyval) \<times> host"

definition get_valid_pages :: "string list" where
  "get_valid_pages = [''media'', ''cut'', ''edit'', ''fusion'', ''color'', ''fairlight'', ''deliver'']"

definition validate_page_name :: "string \<Rightarrow> bool" where
  "validate_page_name page_name = (lower page_name \<in> set get_valid_pages)"

text \<open>
  \<^verbatim>\<open>_extract_resolve_object(func, args, kwargs)\<close>: the keyword \<^verbatim>\<open>resolve\<close> when it
  is truthy, else the first, else the second positional argument when it has a
  \<^verbatim>\<open>GetCurrentPage\<close> attribute, else \<^verbatim>\<open>None\<close>.
\<close>

definition extract_resolve_object :: "arg list \<Rightarrow> kwargs \<Rightarrow> arg option" where
  "extract_resolve_object args kwargs =
     (let resolve = (case map_of kwargs ''resolve'' of None \<Rightarrow> Val VNone | Some r \<Rightarrow> r)
      in if arg_truthy resolve then Some resolve
         else if args \<noteq> [] \<and> has_GetCurrentPage (args ! 0) then Some (args ! 0)
         else if length args > 1 \<and> has_GetCurrentPage (args ! 1) then Some (args ! 1)
         else None)"

definition error_dict :: "string \<Rightarrow> pyval" where
  "error_dict error_msg = VDict [(''error'', VStr error_msg)]"

text \<open>
  The inner \<^verbatim>\<open>try: return func(*args, **kwargs) finally: ...\<close> of the wrapper. The
  \<^verbatim>\<open>finally\<close> block runs on every outcome of \<open>func\<close>. When the page was switched it
  calls \<^verbatim>\<open>OpenPage(current_page)\<close> and ignores what the call returns; an exception
  of the call that derives from \<^verbatim>\<open>Exception\<close> is caught there (and logged), any
  other one leaves the block and replaces the outcome of \<open>func\<close>.
\<close>

definition call_and_restore ::
  "arg \<Rightarrow> string \<Rightarrow> bool \<Rightarrow> operation \<Rightarrow> operation" where
  "call_and_restore resolve current_page page_switched func args kwargs h =
     (case func args kwargs h of
        (outcome, h2) \<Rightarrow>
          if page_switched then
            (case OpenPage resolve current_page h2 of
               (Inr result, h3) \<Rightarrow> (outcome, h3)
             | (Inl e, h3) \<Rightarrow> if is_Exception e then (outcome, h3) else (Inl e, h3))
          else (outcome, h2))"

text \<open>The body of the outer \<^verbatim>\<open>try\<close>: read the page, switch if needed, run.\<close>

definition page_management ::
  "string \<Rightarrow> arg \<Rightarrow> operation \<Rightarrow> operation" where
  "page_management page_name resolve func args kwargs h =
     (case GetCurrentPage resolve h of
        Inl e \<Rightarrow> (Inl e, h)
      | Inr current_page \<Rightarrow>
          if lower current_page \<noteq> lower page_name then
            (case OpenPage resolve page_name h of
               (Inl e, h1) \<Rightarrow> (Inl e, h1)
             | (Inr result, h1) \<Rightarrow>
                 if \<not> result
                 then (Inr (error_dict (''Failed to switch to '' @ page_name @ '' page'')), h1)
                 else call_and_restore resolve current_page True func args kwargs h1)
          else call_and_restore resolve current_page False func args kwargs h)"

text \<open>
  \<^verbatim>\<open>ensure_page(page_name)(func)\<close>, the wrapper; \<open>func_name\<close> is
  \<^verbatim>\<open>func.__name__\<close>. The outer \<^verbatim>\<open>except Exception\<close> turns every exception that
  derives from \<^verbatim>\<open>Exception\<close>, the wrapped function's included, into an error
  mapping.
\<close>

definition ensure_page :: "string \<Rightarrow> string \<Rightarrow> operation \<Rightarrow> operation" where
  "ensure_page page_name func_name func args kwargs h =
     (case extract_resolve_object args kwargs of
        None \<Rightarrow>
          (Inr (error_dict (''Could not find '' @ apostrophe @ ''resolve'' @ apostrophe
                              @ '' object for function '' @ func_name)), h)
      | Some resolve \<Rightarrow>
          (case page_management page_name resolve func args kwargs h of
             (Inr v, h') \<Rightarrow> (Inr v, h')
           | (Inl e, h') \<Rightarrow>
               if is_Exception e
               then (Inr (error_dict (''Error in page management for '' @ func_name @ '': ''
                                        @ str_of e)), h')
               else (Inl e, h')))"

section \<open>Registered operations (\<^verbatim>\<open>api/core_operations.py\<close>, \<^verbatim>\<open>api/cache_management.py\<close>)\<close>

text \<open>
  The registered operations close over the shared handle \<open>resolve\<close>, which is
  \<^verbatim>\<open>None\<close> when no host was found at start. \<^verbatim>\<open>', '.join(xs)\<close> is \<open>join\<close>.
\<close>

fun join :: "string \<Rightarrow> string list \<Rightarrow> string" where
  "join sep [] = []"
| "join sep [x] = x"
| "join sep (x # y # ys) = x @ sep @ join sep (y # ys)"

definition switch_page :: "arg \<Rightarrow> string \<Rightarrow> host \<Rightarrow> (exn + pyval) \<times> host" where
  "switch_page resolve page h =
     (if resolve = Val VNone then (Inr (VStr ''Error: Not connected to DaVinci Resolve''), h)
      else
        let valid_pages = [''media'', ''cut'', ''edit'', ''fusion'', ''color'', ''fairlight'',
                           ''deliver'']
        in if lower page \<notin> set valid_pages
           then (Inr (VStr (''Error: Invalid page '' @ apostrophe @ page @ apostrophe
                             @ ''. Valid pages are: '' @ join '', '' valid_pages)), h)
           else
             (case OpenPage resolve (lower page) h of
                (Inr result, h1) \<Rightarrow>
                  if result then (Inr (VStr (''Successfully switched to '' @ page @ '' page'')), h1)
                  else (Inr (VStr (''Failed to switch to '' @ page @ '' page'')), h1)
              | (Inl e, h1) \<Rightarrow>
                  if is_Exception e
                  then (Inr (VStr (''Error switching to '' @ page @ '' page: '' @ str_of e)), h1)
                  else (Inl e, h1)))"

text \<open>
  The host calls of \<^verbatim>\<open>set_cache_mode\<close>. \<^verbatim>\<open>GetProjectManager()\<close> gives the project
  manager or a falsy value; \<^verbatim>\<open>GetCurrentProject()\<close> the open project or a falsy value;
  \<^verbatim>\<open>SetSetting(key, value)\<close> stores the setting and returns true when the project
  accepts it.
\<close>

definition GetProjectManager :: "arg \<Rightarrow> host \<Rightarrow> exn + bool" where
  "GetProjectManager resolve h =
     (case resolve of
        Val v \<Rightarrow> Inl (no_attribute v ''GetProjectManager'')
      | Handle \<Rightarrow> (case fault h of Some e \<Rightarrow> Inl e | None \<Rightarrow> Inr (has_project_manager h)))"

definition GetCurrentProject :: "host \<Rightarrow> exn + project option" where
  "GetCurrentProject h = (case fault h of Some e \<Rightarrow> Inl e | None \<Rightarrow> Inr (open_project h))"

definition SetSetting :: "project \<Rightarrow> string \<Rightarrow> string \<Rightarrow> host \<Rightarrow> (exn + bool) \<times> host" where
  "SetSetting p key val h =
     (case fault h of
        Some e \<Rightarrow> (Inl e, h)
      | None \<Rightarrow>
          if accepts_settings p
          then (Inr True,
                h\<lparr>open_project := Some (p\<lparr>settings := AList.update key val (settings p)\<rparr>)\<rparr>)
          else (Inr False, h))"

text \<open>The \<^verbatim>\<open>try\<close> block of \<^verbatim>\<open>set_cache_mode\<close>.\<close>

definition set_cache_mode_body :: "arg \<Rightarrow> string \<Rightarrow> host \<Rightarrow> (exn + pyval) \<times> host" where
  "set_cache_mode_body resolve mode h =
     (case GetProjectManager resolve h of
        Inl e \<Rightarrow> (Inl e, h)
      | Inr project_manager \<Rightarrow>
          if \<not> project_manager then (Inr (VStr ''Error: Failed to get Project Manager''), h)
          else
            (case GetCurrentProject h of
               Inl e \<Rightarrow> (Inl e, h)
             | Inr None \<Rightarrow> (Inr (VStr ''Error: No project currently open''), h)
             | Inr (Some current_project) \<Rightarrow>
                 let valid_modes = [''Auto'', ''On'', ''Off'']
                 in if mode \<notin> set valid_modes
                    then (Inr (VStr (''Error: Invalid cache mode. Must be one of: ''
                                      @ join '', '' valid_modes)), h)
                    else
                      (case SetSetting current_project ''cacheModeClipColor'' mode h of
                         (Inl e, h1) \<Rightarrow> (Inl e, h1)
                       | (Inr result, h1) \<Rightarrow>
                           if result
                           then (Inr (VStr (''Successfully set cache mode to '' @ apostrophe
                                             @ mode @ apostrophe)), h1)
                           else (Inr (VStr (''Failed to set cache mode to '' @ apostrophe
                                             @ mode @ apostrophe)), h1))))"

definition set_cache_mode :: "arg \<Rightarrow> string \<Rightarrow> host \<Rightarrow> (exn + pyval) \<times> host" where
  "set_cache_mode resolve mode h =
     (if resolve = Val VNone then (Inr (VStr ''Error: Not connected to DaVinci Resolve''), h)
      else
        (case set_cache_mode_body resolve mode h of
           (Inr v, h') \<Rightarrow> (Inr v, h')
         | (Inl e, h') \<Rightarrow>
             if is_Exception e
             then (Inr (VStr (''Error setting cache mode: '' @ str_of e)), h')
             else (Inl e, h')))"

text \<open>
  A host on the edit page that opens every page asked for: the start of the examples.
\<close>

definition edit_host :: host where
  "edit_host = \<lparr>active_page = ''edit'', fault = None, replies = [], requests = [],
                 has_project_manager = True, open_project = None\<rparr>"

text \<open>
  The response envelope of a failure, as the response formatter builds it and the
  specification describes it: a mapping whose \<^verbatim>\<open>success\<close> is false and whose
  \<^verbatim>\<open>message\<close> is a str.
\<close>

fun error_envelope :: "pyval \<Rightarrow> bool" where
  "error_envelope (VDict d) =
     (map_of d ''success'' = Some (VBool False) \<and>
      (case map_of d ''message'' of Some (VStr m) \<Rightarrow> True | _ \<Rightarrow> False))"
| "error_envelope v = False"

text \<open>
  What the specification expects of an operation called without a host: a mapping with
  \<^verbatim>\<open>success\<close> false and the code \<^verbatim>\<open>CONNECTION_ERROR\<close>.
\<close>

fun connection_error_envelope :: "pyval \<Rightarrow> bool" where
  "connection_error_envelope (VDict d) =
     (map_of d ''success'' = Some (VBool False) \<and>
      map_of d ''error_code'' = Some (VStr ''CONNECTION_ERROR''))"
| "connection_error_envelope v = False"

section \<open>Dictionaries: lookup after an update\<close>

lemma map_of_dict_update:
  "map_of (dict_update response extra) = map_of response ++ map_of (rev extra)"
proof (induction extra arbitrary: response)
  case Nil
  show ?case by (simp add: dict_update_def)
next
  case (Cons p extra)
  obtain k v where p: "p = (k, v)" by (cases p)
  have "map_of (dict_update response (p # extra))
        = map_of (dict_update (AList.update k v response) extra)"
    by (simp add: dict_update_def p)
  also have "\<dots> = map_of (AList.update k v response) ++ map_of (rev extra)"
    by (rule Cons.IH)
  also have "\<dots> = map_of response ++ map_of (rev (p # extra))"
    by (simp add: update_conv' p map_add_upd_left fun_eq_iff map_add_def split: option.splits)
  finally show ?case .
qed

lemma dict_update_lookup:
  "map_of (dict_update r x) k =
     (case map_of (rev x) k of Some v \<Rightarrow> Some v | None \<Rightarrow> map_of r k)"
  by (simp add: map_of_dict_update map_add_def)

lemma absent_rev: "k \<notin> fst ` set x \<Longrightarrow> map_of (rev x) k = None"
  by (simp add: map_of_eq_None_iff)

lemma present_rev: "k \<in> fst ` set x \<Longrightarrow> \<exists>v. map_of (rev x) k = Some v"
  by (metis set_rev map_of_eq_None_iff not_Some_eq)

section \<open>The envelope builders\<close>

lemma dict_update_keeps_key:
  "map_of r k \<noteq> None \<Longrightarrow> map_of (dict_update r x) k \<noteq> None"
  by (simp add: dict_update_lookup split: option.splits)

lemma success_extra: "map_of (rev x) k = Some v \<Longrightarrow> map_of (success m d x) k = Some v"
  by (simp add: success_def Let_def dict_update_lookup)

lemma success_core:
  "''success'' \<notin> fst ` set x \<Longrightarrow> map_of (success m d x) ''success'' = Some (VBool True)"
  "''message'' \<notin> fst ` set x \<Longrightarrow> map_of (success m d x) ''message'' = Some (VStr m)"
  by (simp_all add: success_def Let_def dict_update_lookup absent_rev update_conv')

lemma success_has_key:
  "map_of (success m d x) ''success'' \<noteq> None"
  "map_of (success m d x) ''message'' \<noteq> None"
  by (simp_all add: success_def Let_def dict_update_keeps_key update_conv')

lemma error_extra: "map_of (rev x) k = Some v \<Longrightarrow> map_of (error m c d x) k = Some v"
  by (simp add: error_def Let_def dict_update_lookup)

lemma error_core:
  "''success'' \<notin> fst ` set x \<Longrightarrow> map_of (error m c d x) ''success'' = Some (VBool False)"
  "''message'' \<notin> fst ` set x \<Longrightarrow> map_of (error m c d x) ''message'' = Some (VStr m)"
  by (simp_all add: error_def Let_def dict_update_lookup absent_rev update_conv'
      split: option.splits)

lemma error_has_key:
  "map_of (error m c d x) ''success'' \<noteq> None"
  "map_of (error m c d x) ''message'' \<noteq> None"
  by (simp_all add: error_def Let_def dict_update_keeps_key update_conv' split: option.splits)

lemma info_extra: "map_of (rev x) k = Some v \<Longrightarrow> map_of (info m d x) k = Some v"
  by (simp add: info_def Let_def dict_update_lookup)

lemma info_core:
  "''success'' \<notin> fst ` set x \<Longrightarrow> map_of (info m d x) ''success'' = Some (VBool True)"
  "''message'' \<notin> fst ` set x \<Longrightarrow> map_of (info m d x) ''message'' = Some (VStr m)"
  "''type'' \<notin> fst ` set x \<Longrightarrow> map_of (info m d x) ''type'' = Some (VStr ''info'')"
  by (simp_all add: info_def Let_def dict_update_lookup absent_rev update_conv')

lemma info_has_key:
  "map_of (info m d x) ''success'' \<noteq> None"
  "map_of (info m d x) ''message'' \<noteq> None"
  "map_of (info m d x) ''type'' \<noteq> None"
  by (simp_all add: info_def Let_def dict_update_keeps_key update_conv')

text \<open>
  C6, as the code has it. Each builder is a function with no failing branch, and its
  result always holds the keys \<^verbatim>\<open>success\<close> and \<^verbatim>\<open>message\<close> (and
  \<^verbatim>\<open>type\<close> for \<^verbatim>\<open>info\<close>). The extra keyword fields are stored last by
  \<^verbatim>\<open>response.update(extra)\<close>: every extra field is found in the result with the
  value given, so an extra field named like a core key replaces the core value. A core
  key that no extra field names keeps the value the builder gave it:
  \<^verbatim>\<open>success\<close> is true for \<^verbatim>\<open>success\<close> and \<^verbatim>\<open>info\<close> and false for
  \<^verbatim>\<open>error\<close>, \<^verbatim>\<open>message\<close> is the message, \<^verbatim>\<open>type\<close> is "info".
\<close>

theorem envelope_builders_merge:
  "(map_of (success message data extra) ''success'' \<noteq> None \<and>
    map_of (success message data extra) ''message'' \<noteq> None \<and>
    map_of (error message error_code details extra) ''success'' \<noteq> None \<and>
    map_of (error message error_code details extra) ''message'' \<noteq> None \<and>
    map_of (info message data extra) ''success'' \<noteq> None \<and>
    map_of (info message data extra) ''message'' \<noteq> None \<and>
    map_of (info message data extra) ''type'' \<noteq> None) \<and>
   (''success'' \<notin> fst ` set extra \<longrightarrow>
      map_of (success message data extra) ''success'' = Some (VBool True) \<and>
      map_of (error message error_code details extra) ''success'' = Some (VBool False) \<and>
      map_of (info message data extra) ''success'' = Some (VBool True)) \<and>
   (''message'' \<notin> fst ` set extra \<longrightarrow>
      map_of (success message data extra) ''message'' = Some (VStr message) \<and>
      map_of (error message error_code details extra) ''message'' = Some (VStr message) \<and>
      map_of (info message data extra) ''message'' = Some (VStr message)) \<and>
   (''type'' \<notin> fst ` set extra \<longrightarrow>
      map_of (info message data extra) ''type'' = Some (VStr ''info'')) \<and>
   (\<forall>k v. map_of (rev extra) k = Some v \<longrightarrow>
      map_of (success message data extra) k = Some v \<and>
      map_of (error message error_code details extra) k = Some v \<and>
      map_of (info message data extra) k = Some v)"
proof (intro conjI impI allI)
  show "map_of (success message data extra) ''success'' \<noteq> None"
    by (rule success_has_key)
  show "map_of (success message data extra) ''message'' \<noteq> None"
    by (rule success_has_key)
  show "map_of (error message error_code details extra) ''success'' \<noteq> None"
    by (rule error_has_key)
  show "map_of (error message error_code details extra) ''message'' \<noteq> None"
    by (rule error_has_key)
  show "map_of (info message data extra) ''success'' \<noteq> None"
    by (rule info_has_key)
  show "map_of (info message data extra) ''message'' \<noteq> None"
    by (rule info_has_key)
  show "map_of (info message data extra) ''type'' \<noteq> None"
    by (rule info_has_key)
next
  assume a: "''success'' \<notin> fst ` set extra"
  show "map_of (success message data extra) ''success'' = Some (VBool True)"
    by (rule success_core(1) [OF a])
  show "map_of (error message error_code details extra) ''success'' = Some (VBool False)"
    by (rule error_core(1) [OF a])
  show "map_of (info message data extra) ''success'' = Some (VBool True)"
    by (rule info_core(1) [OF a])
next
  assume a: "''message'' \<notin> fst ` set extra"
  show "map_of (success message data extra) ''message'' = Some (VStr message)"
    by (rule success_core(2) [OF a])
  show "map_of (error message error_code details extra) ''message'' = Some (VStr message)"
    by (rule error_core(2) [OF a])
  show "map_of (info message data extra) ''message'' = Some (VStr message)"
    by (rule info_core(2) [OF a])
next
  assume a: "''type'' \<notin> fst ` set extra"
  show "map_of (info message data extra) ''type'' = Some (VStr ''info'')"
    by (rule info_core(3) [OF a])
next
  fix k v
  assume a: "map_of (rev extra) k = Some v"
  show "map_of (success message data extra) k = Some v"
    by (rule success_extra [OF a])
  show "map_of (error message error_code details extra) k = Some v"
    by (rule error_extra [OF a])
  show "map_of (info message data extra) k = Some v"
    by (rule info_extra [OF a])
qed

theorem envelope_builders_merge_witness:
  "map_of (success ''Node added'' VNone [(''node_name'', VStr ''Merge1'')]) ''success''
     = Some (VBool True) \<and>
   map_of (error ''Node added'' (Some ''NODE_NOT_FOUND'') VNone [(''node_name'', VStr ''Merge1'')])
     ''message'' = Some (VStr ''Node added'') \<and>
   map_of (info ''Node added'' VNone [(''node_name'', VStr ''Merge1'')]) ''type''
     = Some (VStr ''info'') \<and>
   map_of (info ''Node added'' VNone [(''node_name'', VStr ''Merge1'')]) ''node_name''
     = Some (VStr ''Merge1'')"
  using envelope_builders_merge [of "''Node added''" VNone "[(''node_name'', VStr ''Merge1'')]"
      "Some ''NODE_NOT_FOUND''" VNone]
  by simp

text \<open>
  The claim's "without overwriting the core keys" fails:
  \<^verbatim>\<open>success("done", success=False)\<close> returns a mapping whose \<^verbatim>\<open>success\<close> is
  false.
\<close>

theorem extra_overwrites_core_key:
  "success ''done'' VNone [(''success'', VBool False)]
     = [(''success'', VBool False), (''message'', VStr ''done'')]"
  by (simp add: success_def dict_update_def)

section \<open>The validators\<close>

lemma list_index_None: "list_index xs y = None \<longleftrightarrow> y \<notin> set xs"
  by (induction xs) auto

lemma list_index_Some:
  "list_index xs y = Some i \<Longrightarrow> i < length xs \<and> xs ! i = y \<and> (\<forall>j<i. xs ! j \<noteq> y)"
proof (induction xs arbitrary: i)
  case Nil
  then show ?case by simp
next
  case (Cons x xs)
  show ?case
  proof (cases "x = y")
    case True
    with Cons.prems show ?thesis by simp
  next
    case False
    with Cons.prems obtain k where k: "list_index xs y = Some k" and i: "i = Suc k"
      by auto
    from Cons.IH [OF k] have "k < length xs" "xs ! k = y" "\<forall>j<k. xs ! j \<noteq> y" by auto
    with False i show ?thesis by (auto simp: less_Suc_eq_0_disj)
  qed
qed

text \<open>
  The lookup by \<^verbatim>\<open>index\<close> never fails after the membership test: the validator is
  the first match of the lower-cased list, or the validation failure.
\<close>

lemma validate_choice_insensitive_eq:
  "validate_choice py_str (VStr v) choices name False =
     (case list_index (map lower choices) (lower v) of
        None \<Rightarrow> Inl (not_a_choice py_str name choices v)
      | Some i \<Rightarrow> Inr (choices ! i))"
proof (cases "list_index (map lower choices) (lower v)")
  case None
  then have "lower v \<notin> set (map lower choices)" by (simp add: list_index_None)
  with None show ?thesis by (simp add: validate_choice_def Let_def)
next
  case (Some i)
  from list_index_Some [OF Some] have i: "i < length choices" by simp
  from Some have "lower v \<in> set (map lower choices)"
    using list_index_None [of "map lower choices" "lower v"] by simp
  with Some i show ?thesis by (simp add: validate_choice_def Let_def)
qed

text \<open>
  C8. In its default mode (\<^verbatim>\<open>case_sensitive=False\<close>) \<^verbatim>\<open>validate_choice\<close>
  returns a value exactly when the lower-cased string equals the lower-cased form of
  some member of the list. The value returned is then a member of the list, in the
  list's own casing, whose lower-cased form is that of the input: the first such
  member. Otherwise the validator raises the validation failure.
\<close>

theorem validate_choice_case_insensitive:
  "((\<exists>c. validate_choice py_str (VStr v) choices name False = Inr c)
      \<longleftrightarrow> (\<exists>m \<in> set choices. lower m = lower v)) \<and>
   (\<forall>c. validate_choice py_str (VStr v) choices name False = Inr c \<longrightarrow>
      c \<in> set choices \<and> lower c = lower v \<and>
      (\<exists>i < length choices. c = choices ! i \<and> (\<forall>j<i. lower (choices ! j) \<noteq> lower v))) \<and>
   ((\<forall>m \<in> set choices. lower m \<noteq> lower v) \<longrightarrow>
      validate_choice py_str (VStr v) choices name False = Inl (not_a_choice py_str name choices v)
      \<and> class_of (not_a_choice py_str name choices v) = ValidationError)"
proof (cases "list_index (map lower choices) (lower v)")
  case None
  then have no: "lower v \<notin> set (map lower choices)" by (simp add: list_index_None)
  then have no': "\<forall>m \<in> set choices. lower m \<noteq> lower v" by (metis image_eqI set_map)
  have eq: "validate_choice py_str (VStr v) choices name False
              = Inl (not_a_choice py_str name choices v)"
    by (simp add: validate_choice_insensitive_eq None)
  show ?thesis using no' by (simp add: eq not_a_choice_def)
next
  case (Some i)
  from list_index_Some [OF Some]
  have i: "i < length choices" and at: "lower (choices ! i) = lower v"
    and first: "\<forall>j<i. lower (choices ! j) \<noteq> lower v" by auto
  have eq: "validate_choice py_str (VStr v) choices name False = Inr (choices ! i)"
    by (simp add: validate_choice_insensitive_eq Some)
  have mem: "choices ! i \<in> set choices" using i by simp
  have ex: "\<exists>m \<in> set choices. lower m = lower v" using mem at by blast
  have "\<exists>k < length choices. choices ! i = choices ! k \<and> (\<forall>j<k. lower (choices ! j) \<noteq> lower v)"
    using i first by blast
  with ex mem at show ?thesis by (simp add: eq)
qed

theorem validate_choice_case_insensitive_witness:
  "validate_choice py_str_basic (VStr ''auto'') [''Auto'', ''On'', ''Off''] ''mode'' False
     = Inr ''Auto'' \<and>
   validate_choice py_str_basic (VStr ''always'') [''Auto'', ''On'', ''Off''] ''mode'' False
     = Inl (not_a_choice py_str_basic ''mode'' [''Auto'', ''On'', ''Off''] ''always'')"
  using validate_choice_case_insensitive
    [of py_str_basic "''auto''" "[''Auto'', ''On'', ''Off'']" "''mode''"]
    validate_choice_case_insensitive
    [of py_str_basic "''always''" "[''Auto'', ''On'', ''Off'']" "''mode''"]
  by (simp add: validate_choice_def lower_def lower_char_def Let_def)

lemma num_less_le:
  "x \<noteq> NaN \<Longrightarrow> y \<noteq> NaN \<Longrightarrow> num_less x y \<longleftrightarrow> \<not> num_le y x"
  by (cases x; cases y) auto

lemma num_less_NaN: "\<not> num_less x NaN" "\<not> num_less NaN y"
  by (cases x, auto)

lemma num_le_refl: "x \<noteq> NaN \<Longrightarrow> num_le x x"
  by (cases x) auto

lemma num_le_not_NaN: "num_le x y \<Longrightarrow> x \<noteq> NaN \<and> y \<noteq> NaN"
  by (cases x; cases y) auto

lemma validate_range_accepts:
  "(validate_range py_str (VNum v) min_val max_val name = Inr ())
     \<longleftrightarrow> \<not> (num_less v min_val \<or> num_less max_val v)"
  by (simp add: validate_range_def num_greater_def)

lemma validate_range_rejects:
  "(\<exists>msg. validate_range py_str (VNum v) min_val max_val name = Inl (Exn ValidationError msg))
     \<longleftrightarrow> (num_less v min_val \<or> num_less max_val v)"
  by (simp add: validate_range_def num_greater_def)

text \<open>
  C9, as the code has it. For a number \<open>v\<close> other than nan and bounds that are numbers
  other than nan, \<^verbatim>\<open>validate_range\<close> returns exactly when
  \<open>min_val \<le> v \<le> max_val\<close>, and raises the validation failure exactly when \<open>v\<close>
  is strictly below \<open>min_val\<close> or strictly above \<open>max_val\<close>; so both bounds are
  accepted whenever \<open>min_val \<le> max_val\<close>. The float nan is accepted for all bounds,
  because both comparisons of the test are false for it.
\<close>

theorem validate_range_inclusive:
  "(v \<noteq> NaN \<and> min_val \<noteq> NaN \<and> max_val \<noteq> NaN \<longrightarrow>
      ((validate_range py_str (VNum v) min_val max_val name = Inr ())
         \<longleftrightarrow> (num_le min_val v \<and> num_le v max_val)) \<and>
      ((\<exists>msg. validate_range py_str (VNum v) min_val max_val name
                 = Inl (Exn ValidationError msg))
         \<longleftrightarrow> (num_less v min_val \<or> num_less max_val v))) \<and>
   (num_le min_val max_val \<longrightarrow>
      validate_range py_str (VNum min_val) min_val max_val name = Inr () \<and>
      validate_range py_str (VNum max_val) min_val max_val name = Inr ()) \<and>
   validate_range py_str (VNum NaN) min_val max_val name = Inr ()"
proof (intro conjI impI)
  assume a: "v \<noteq> NaN \<and> min_val \<noteq> NaN \<and> max_val \<noteq> NaN"
  then have 1: "num_less v min_val \<longleftrightarrow> \<not> num_le min_val v"
    and 2: "num_less max_val v \<longleftrightarrow> \<not> num_le v max_val"
    by (simp_all add: num_less_le)
  show "(validate_range py_str (VNum v) min_val max_val name = Inr ())
          \<longleftrightarrow> (num_le min_val v \<and> num_le v max_val)"
    by (simp add: validate_range_accepts 1 2)
  show "(\<exists>msg. validate_range py_str (VNum v) min_val max_val name
                  = Inl (Exn ValidationError msg))
          \<longleftrightarrow> (num_less v min_val \<or> num_less max_val v)"
    by (rule validate_range_rejects)
next
  assume le: "num_le min_val max_val"
  from num_le_not_NaN [OF le] have n: "min_val \<noteq> NaN" "max_val \<noteq> NaN" by simp_all
  show "validate_range py_str (VNum min_val) min_val max_val name = Inr ()"
    using le n by (simp add: validate_range_accepts num_less_le num_le_refl)
  show "validate_range py_str (VNum max_val) min_val max_val name = Inr ()"
    using le n by (simp add: validate_range_accepts num_less_le num_le_refl)
next
  show "validate_range py_str (VNum NaN) min_val max_val name = Inr ()"
    by (simp add: validate_range_accepts num_less_NaN)
qed

theorem validate_range_inclusive_witness:
  "validate_range py_str_basic (VNum (NInt 0)) (NInt 0) (NInt 100) ''volume'' = Inr () \<and>
   validate_range py_str_basic (VNum (NInt 100)) (NInt 0) (NInt 100) ''volume'' = Inr () \<and>
   validate_range py_str_basic (VNum (NFloat (1/2))) (NInt 0) (NInt 1) ''opacity'' = Inr () \<and>
   validate_range py_str_basic (VNum (NInt 101)) (NInt 0) (NInt 100) ''volume''
     = Inl (Exn ValidationError ''volume must be between 0 and 100, got 101'')"
  using validate_range_inclusive [of "NInt 0" "NInt 0" "NInt 100" py_str_basic "''volume''"]
    validate_range_inclusive [of "NFloat (1/2)" "NInt 0" "NInt 1" py_str_basic "''opacity''"]
  by (simp add: validate_range_def num_greater_def str_int_def str_nat.simps digit_char_def)

text \<open>
  The claim as stated, for every numeric value, fails at the float nan:
  \<^verbatim>\<open>validate_range(float("nan"), 0, 1, "opacity")\<close> returns, although
  \<open>0 \<le> nan \<le> 1\<close> is false.
\<close>

theorem validate_range_accepts_nan:
  "validate_range py_str_basic (VNum NaN) (NInt 0) (NInt 1) ''opacity'' = Inr () \<and>
   \<not> (num_le (NInt 0) NaN \<and> num_le NaN (NInt 1))"
  by (simp add: validate_range_def num_greater_def)

section \<open>The error handler\<close>

lemma error_with_code:
  "c \<noteq> [] \<Longrightarrow> error m (Some c) VNone [] =
     [(''success'', VBool False), (''message'', VStr m), (''error_code'', VStr c)]"
  by (simp add: error_def dict_update_def)

lemma handle_resolve_errors_return:
  "func args s = (Inr v, s') \<Longrightarrow> handle_resolve_errors func args s = (Inr v, s')"
  by (simp add: handle_resolve_errors_def)

lemma handle_resolve_errors_classified:
  assumes "func args s = (Inl e, s')" and "classified e"
  shows "\<exists>code. handle_resolve_errors func args s =
           (Inr (VDict [(''success'', VBool False), (''message'', VStr (str_of e)),
                        (''error_code'', VStr code)]), s')"
  using assms
  by (auto simp: handle_resolve_errors_def error_with_code classified_def)

lemma handle_resolve_errors_unexpected:
  assumes "func args s = (Inl e, s')" and "\<not> classified e" and "is_Exception e"
  shows "handle_resolve_errors func args s =
           (Inr (VDict [(''success'', VBool False),
                        (''message'', VStr (''Unexpected error: '' @ str_of e)),
                        (''error_code'', VStr ''INTERNAL_ERROR'')]), s')"
  using assms
  by (simp add: handle_resolve_errors_def error_with_code classified_def)

lemma handle_resolve_errors_pass:
  assumes "func args s = (Inl e, s')" and "\<not> is_Exception e"
  shows "handle_resolve_errors func args s = (Inl e, s')"
  using assms
  by (cases e rule: is_Exception.cases) (simp_all add: handle_resolve_errors_def)

lemma classified_is_Exception: "classified e \<Longrightarrow> is_Exception e"
  by (cases e rule: is_Exception.cases) (simp_all add: classified_def)

text \<open>
  C2, as the code has it. Let the wrapped function raise \<open>e\<close>. When \<open>e\<close> derives from
  \<^verbatim>\<open>Exception\<close>, nothing propagates: the wrapper returns a mapping with
  \<^verbatim>\<open>success\<close> false and a \<^verbatim>\<open>message\<close>. For a connection, validation or
  operation failure of the handler's own classes the message is \<^verbatim>\<open>str(e)\<close> as it
  is, so it is empty when the exception carries no text; for every other exception it
  is "Unexpected error: " followed by \<^verbatim>\<open>str(e)\<close>, and the code is
  \<^verbatim>\<open>INTERNAL_ERROR\<close>. An exception that derives from \<^verbatim>\<open>BaseException\<close> only
  passes through the wrapper, because the last clause is \<^verbatim>\<open>except Exception\<close>.
\<close>

theorem handle_resolve_errors_envelope:
  assumes "func args s = (Inl e, s')"
  shows "(is_Exception e \<longrightarrow>
            (\<exists>env m. handle_resolve_errors func args s = (Inr (VDict env), s') \<and>
               map_of env ''success'' = Some (VBool False) \<and>
               map_of env ''message'' = Some (VStr m) \<and>
               (classified e \<longrightarrow> m = str_of e) \<and>
               (\<not> classified e \<longrightarrow>
                  m = ''Unexpected error: '' @ str_of e \<and>
                  map_of env ''error_code'' = Some (VStr ''INTERNAL_ERROR'')) \<and>
               (m = [] \<longleftrightarrow> classified e \<and> str_of e = []))) \<and>
         (\<not> is_Exception e \<longrightarrow> handle_resolve_errors func args s = (Inl e, s'))"
proof (intro conjI impI)
  assume ex: "is_Exception e"
  show "\<exists>env m. handle_resolve_errors func args s = (Inr (VDict env), s') \<and>
               map_of env ''success'' = Some (VBool False) \<and>
               map_of env ''message'' = Some (VStr m) \<and>
               (classified e \<longrightarrow> m = str_of e) \<and>
               (\<not> classified e \<longrightarrow>
                  m = ''Unexpected error: '' @ str_of e \<and>
                  map_of env ''error_code'' = Some (VStr ''INTERNAL_ERROR'')) \<and>
               (m = [] \<longleftrightarrow> classified e \<and> str_of e = [])"
  proof (cases "classified e")
    case True
    from handle_resolve_errors_classified [of func args s e s', OF assms True] obtain code where
      "handle_resolve_errors func args s =
         (Inr (VDict [(''success'', VBool False), (''message'', VStr (str_of e)),
                      (''error_code'', VStr code)]), s')" ..
    with True show ?thesis by simp
  next
    case False
    from handle_resolve_errors_unexpected [of func args s e s', OF assms False ex] False
    show ?thesis by simp
  qed
next
  assume "\<not> is_Exception e"
  then show "handle_resolve_errors func args s = (Inl e, s')"
    by (rule handle_resolve_errors_pass [of func args s e s', OF assms])
qed

theorem handle_resolve_errors_envelope_witness:
  "handle_resolve_errors (\<lambda>args s. (Inl (Exn (Other_Exception ''RuntimeError'') ''boom''), s))
     [Val (VStr ''Merge'')] () =
     (Inr (VDict [(''success'', VBool False), (''message'', VStr ''Unexpected error: boom''),
                  (''error_code'', VStr ''INTERNAL_ERROR'')]), ())"
  using handle_resolve_errors_envelope
    [of "\<lambda>args s. (Inl (Exn (Other_Exception ''RuntimeError'') ''boom''), s)"
        "[Val (VStr ''Merge'')]" "()" "Exn (Other_Exception ''RuntimeError'') ''boom''" "()"]
  by (simp add: handle_resolve_errors_def error_with_code)

text \<open>
  The claim fails at two inputs. \<^verbatim>\<open>raise OperationError()\<close> inside the wrapped
  function gives an envelope whose message is the empty string, and
  \<^verbatim>\<open>KeyboardInterrupt\<close> leaves the wrapper.
\<close>

theorem handle_resolve_errors_empty_message:
  "handle_resolve_errors (\<lambda>args s. (Inl (Exn OperationError []), s)) [] () =
     (Inr (VDict [(''success'', VBool False), (''message'', VStr []),
                  (''error_code'', VStr ''OPERATION_ERROR'')]), ()) \<and>
   handle_resolve_errors (\<lambda>args s. (Inl (Exn (Base_Exception ''KeyboardInterrupt'') []), s)) [] () =
     (Inl (Exn (Base_Exception ''KeyboardInterrupt'') []), ())"
  by (simp add: handle_resolve_errors_def error_with_code)

text \<open>
  C3 fails on the code. The validators raise \<^verbatim>\<open>validation.ValidationError\<close>, which
  is not the \<^verbatim>\<open>ValidationError\<close> that the handler's second clause names, so the
  failure reaches the last clause: a function that runs
  \<^verbatim>\<open>validate_range(value, 0, 1, "opacity")\<close> on the value 5 under the wrapper returns
  the code \<^verbatim>\<open>INTERNAL_ERROR\<close> and the message "Unexpected error: ...".
\<close>

theorem validation_failure_is_internal_error:
  "handle_resolve_errors
     (\<lambda>value s. (case validate_range py_str_basic value (NInt 0) (NInt 1) ''opacity'' of
                     Inl e \<Rightarrow> Inl e | Inr u \<Rightarrow> Inr VNone, s))
     (VNum (NInt 5)) () =
     (Inr (VDict [(''success'', VBool False),
                  (''message'', VStr ''Unexpected error: opacity must be between 0 and 1, got 5''),
                  (''error_code'', VStr ''INTERNAL_ERROR'')]), ())"
  by (simp add: handle_resolve_errors_def error_with_code validate_range_def num_greater_def
      str_int_def str_nat.simps digit_char_def)

lemma validator_failures_are_unclassified:
  "class_of e = ValidationError \<Longrightarrow> func args s = (Inl e, s') \<Longrightarrow>
     handle_resolve_errors func args s =
       (Inr (VDict [(''success'', VBool False),
                    (''message'', VStr (''Unexpected error: '' @ str_of e)),
                    (''error_code'', VStr ''INTERNAL_ERROR'')]), s')"
  by (cases e rule: is_Exception.cases)
     (simp_all add: handle_resolve_errors_def error_with_code)

section \<open>The page-state guard\<close>

lemma GetCurrentPage_Inr:
  "GetCurrentPage resolve h = Inr p \<Longrightarrow> resolve = Handle \<and> fault h = None \<and> p = active_page h"
  by (cases resolve) (auto split: option.splits)

lemma OpenPage_True:
  "OpenPage Handle p h = (Inr True, h') \<Longrightarrow>
     active_page h' = p \<and> requests h' = requests h @ [p]"
  by (auto simp: Let_def split: option.splits list.splits reply.splits)

lemma OpenPage_False:
  "OpenPage Handle p h = (Inr False, h') \<Longrightarrow>
     active_page h' = active_page h \<and> requests h' = requests h @ [p]"
  by (auto simp: Let_def split: option.splits list.splits reply.splits)

lemma OpenPage_requests:
  "requests (snd (OpenPage Handle p h)) = requests h @ [p]"
  by (auto simp: Let_def split: option.splits list.splits reply.splits)

lemma extract_first_positional:
  "extract_resolve_object [Handle] [] = Some Handle"
  by (simp add: extract_resolve_object_def)

text \<open>
  The three ways through the guard once the handle is found and the page is read: the
  switch is refused, no switch is needed, the switch succeeds.
\<close>

lemma page_guard_refused:
  assumes "extract_resolve_object args kwargs = Some resolve"
      and "GetCurrentPage resolve h = Inr current_page"
      and "lower current_page \<noteq> lower page_name"
      and "OpenPage resolve page_name h = (Inr False, h1)"
  shows "ensure_page page_name func_name func args kwargs h =
           (Inr (error_dict (''Failed to switch to '' @ page_name @ '' page'')), h1)"
  using assms by (simp add: ensure_page_def page_management_def)

lemma page_guard_unswitched:
  assumes "extract_resolve_object args kwargs = Some resolve"
      and "GetCurrentPage resolve h = Inr current_page"
      and "lower current_page = lower page_name"
  shows "ensure_page page_name func_name func args kwargs h =
           (case func args kwargs h of
              (Inr v, h') \<Rightarrow> (Inr v, h')
            | (Inl e, h') \<Rightarrow>
                if is_Exception e
                then (Inr (error_dict (''Error in page management for '' @ func_name @ '': ''
                                         @ str_of e)), h')
                else (Inl e, h'))"
  using assms
  by (simp add: ensure_page_def page_management_def call_and_restore_def split: prod.splits)

lemma page_guard_switched:
  assumes "extract_resolve_object args kwargs = Some resolve"
      and "GetCurrentPage resolve h = Inr current_page"
      and "lower current_page \<noteq> lower page_name"
      and "OpenPage resolve page_name h = (Inr True, h1)"
      and "func args kwargs h1 = (outcome, h2)"
      and "OpenPage resolve current_page h2 = (Inr result, h3)"
  shows "ensure_page page_name func_name func args kwargs h =
           (case outcome of
              Inr v \<Rightarrow> (Inr v, h3)
            | Inl e \<Rightarrow>
                if is_Exception e
                then (Inr (error_dict (''Error in page management for '' @ func_name @ '': ''
                                         @ str_of e)), h3)
                else (Inl e, h3))"
  using assms
  by (simp add: ensure_page_def page_management_def call_and_restore_def split: sum.splits)

text \<open>
  C4, as the code has it. When the host answers the initial
  \<^verbatim>\<open>OpenPage(page_name)\<close> with a falsy result, the wrapped function is never
  invoked (it occurs neither in the result nor in the final state, which is the host as
  that call left it, on the page it was on), and the guard returns the one-key mapping
  \<^verbatim>\<open>{"error": "Failed to switch to <page_name> page"}\<close>. This mapping has no
  \<^verbatim>\<open>success\<close> and no \<^verbatim>\<open>message\<close> key: it reports the error, but it is
  not the response envelope.
\<close>

theorem ensure_page_switch_refused:
  assumes "extract_resolve_object args kwargs = Some resolve"
      and "GetCurrentPage resolve h = Inr current_page"
      and "lower current_page \<noteq> lower page_name"
      and "OpenPage resolve page_name h = (Inr False, h1)"
  shows "ensure_page page_name func_name func args kwargs h =
           (Inr (VDict [(''error'', VStr (''Failed to switch to '' @ page_name @ '' page''))]), h1)
         \<and> active_page h1 = active_page h
         \<and> \<not> error_envelope
               (VDict [(''error'', VStr (''Failed to switch to '' @ page_name @ '' page''))])"
proof -
  from GetCurrentPage_Inr [OF assms(2)] have r: "resolve = Handle" by simp
  from assms(4) r have "active_page h1 = active_page h" using OpenPage_False by simp
  with page_guard_refused [OF assms] show ?thesis
    by (simp add: error_dict_def)
qed

theorem ensure_page_switch_refused_witness:
  "ensure_page ''fusion'' ''add_fusion_node''
     (\<lambda>args kwargs h. (Inr (VStr ''ran''), h\<lparr>active_page := ''color''\<rparr>))
     [Handle] [] (edit_host\<lparr>replies := [Refuses]\<rparr>) =
     (Inr (VDict [(''error'', VStr ''Failed to switch to fusion page'')]),
      edit_host\<lparr>requests := [''fusion'']\<rparr>)"
  using ensure_page_switch_refused
    [of "[Handle]" "[]" Handle "edit_host\<lparr>replies := [Refuses]\<rparr>" "''edit''" "''fusion''"
        "edit_host\<lparr>requests := [''fusion'']\<rparr>" "''add_fusion_node''"
        "\<lambda>args kwargs h. (Inr (VStr ''ran''), h\<lparr>active_page := ''color''\<rparr>)"]
  by (simp add: extract_first_positional edit_host_def lower_def lower_char_def)

text \<open>
  The claim's "error envelope" fails: with a host on the edit page that refuses to open
  the fusion page, the guard returns a mapping whose only key is \<^verbatim>\<open>error\<close>.
\<close>

theorem refused_switch_result_is_no_envelope:
  "fst (ensure_page ''fusion'' ''add_fusion_node''
          (\<lambda>args kwargs h. (Inr (VDict (success ''Added Merge node'' VNone [])), h))
          [Handle] [] (edit_host\<lparr>replies := [Refuses]\<rparr>))
     = Inr (VDict [(''error'', VStr ''Failed to switch to fusion page'')]) \<and>
   \<not> error_envelope (VDict [(''error'', VStr ''Failed to switch to fusion page'')])"
  by (simp add: extract_first_positional edit_host_def lower_def lower_char_def
      ensure_page_def page_management_def error_dict_def)

text \<open>
  C10. When the page the host reports equals the required page up to letter case, the
  host after the guarded call is exactly the host the wrapped function left, so the
  guard has made no \<^verbatim>\<open>OpenPage\<close> call (every such call is recorded in
  \<open>requests\<close>), neither before nor after the function; and a value the function
  returns is returned unchanged.
\<close>

theorem ensure_page_already_there:
  assumes "extract_resolve_object args kwargs = Some resolve"
      and "GetCurrentPage resolve h = Inr current_page"
      and "lower current_page = lower page_name"
  shows "snd (ensure_page page_name func_name func args kwargs h) = snd (func args kwargs h) \<and>
         (\<forall>v. fst (func args kwargs h) = Inr v \<longrightarrow>
              fst (ensure_page page_name func_name func args kwargs h) = Inr v)"
  by (simp add: page_guard_unswitched [OF assms] split: prod.splits sum.splits)

theorem ensure_page_already_there_witness:
  "ensure_page ''fusion'' ''get_fusion_nodes''
     (\<lambda>args kwargs h. (Inr (VDict (success ''Retrieved 0 Fusion nodes'' (VList []) [])), h))
     [Handle] [] (edit_host\<lparr>active_page := ''Fusion''\<rparr>) =
     (Inr (VDict [(''success'', VBool True), (''message'', VStr ''Retrieved 0 Fusion nodes''),
                  (''data'', VList [])]),
      edit_host\<lparr>active_page := ''Fusion''\<rparr>)"
  using ensure_page_already_there
    [of "[Handle]" "[]" Handle "edit_host\<lparr>active_page := ''Fusion''\<rparr>" "''Fusion''" "''fusion''"
        "''get_fusion_nodes''"
        "\<lambda>args kwargs h. (Inr (VDict (success ''Retrieved 0 Fusion nodes'' (VList []) [])), h)"]
  by (simp add: extract_first_positional edit_host_def lower_def lower_char_def
      prod_eq_iff success_def dict_update_def)

text \<open>
  C1, as the code has it. Let the initial switch succeed, let the wrapped function end
  in any way (a value or an exception of any class), and let the restoring
  \<^verbatim>\<open>OpenPage(current_page)\<close> call of the \<^verbatim>\<open>finally\<close> block succeed as well.
  Then the host's active page after the guarded call is the page that was active before
  it, and a value the function returned is returned unchanged.
\<close>

theorem ensure_page_restores_page:
  assumes "extract_resolve_object args kwargs = Some resolve"
      and "GetCurrentPage resolve h = Inr current_page"
      and "lower current_page \<noteq> lower page_name"
      and "OpenPage resolve page_name h = (Inr True, h1)"
      and "func args kwargs h1 = (outcome, h2)"
      and "OpenPage resolve current_page h2 = (Inr True, h3)"
  shows "snd (ensure_page page_name func_name func args kwargs h) = h3 \<and>
         active_page h3 = active_page h \<and>
         (\<forall>v. outcome = Inr v \<longrightarrow>
              fst (ensure_page page_name func_name func args kwargs h) = Inr v)"
proof -
  from GetCurrentPage_Inr [OF assms(2)]
  have r: "resolve = Handle" and p: "current_page = active_page h" by simp_all
  from assms(6) r have "active_page h3 = current_page" using OpenPage_True by simp
  with p page_guard_switched [where func = func, OF assms] show ?thesis
    by (simp split: sum.splits)
qed

theorem ensure_page_restores_page_witness:
  "snd (ensure_page ''fusion'' ''add_fusion_node''
          (\<lambda>args kwargs h. (Inl (Exn (Other_Exception ''RuntimeError'') ''boom''), h))
          [Handle] [] edit_host)
     = edit_host\<lparr>requests := [''fusion'', ''edit'']\<rparr> \<and>
   active_page (edit_host\<lparr>requests := [''fusion'', ''edit'']\<rparr>) = active_page edit_host"
  using ensure_page_restores_page
    [of "[Handle]" "[]" Handle edit_host "''edit''" "''fusion''"
        "edit_host\<lparr>requests := [''fusion''], active_page := ''fusion''\<rparr>"
        "\<lambda>args kwargs h. (Inl (Exn (Other_Exception ''RuntimeError'') ''boom''), h)"
        "Inl (Exn (Other_Exception ''RuntimeError'') ''boom'')"
        "edit_host\<lparr>requests := [''fusion''], active_page := ''fusion''\<rparr>"
        "edit_host\<lparr>requests := [''fusion'', ''edit'']\<rparr>" "''add_fusion_node''"]
  by (simp add: extract_first_positional edit_host_def lower_def lower_char_def)

text \<open>
  The claim as stated asks only for the initial switch to succeed. It fails when the host
  refuses the restoring call: the guard ignores the result of that call, the operation's
  own result is returned, and the host stays on the fusion page although it was on the
  edit page before.
\<close>

theorem restore_refused_page_not_restored:
  "active_page (edit_host\<lparr>replies := [Opens, Refuses]\<rparr>) = ''edit'' \<and>
   ensure_page ''fusion'' ''add_fusion_node''
     (\<lambda>args kwargs h. (Inr (VDict (success ''Added Merge node'' VNone [])), h))
     [Handle] [] (edit_host\<lparr>replies := [Opens, Refuses]\<rparr>) =
     (Inr (VDict [(''success'', VBool True), (''message'', VStr ''Added Merge node'')]),
      edit_host\<lparr>active_page := ''fusion'', requests := [''fusion'', ''edit'']\<rparr>)"
  by (simp add: extract_first_positional edit_host_def lower_def lower_char_def
      ensure_page_def page_management_def call_and_restore_def success_def dict_update_def)

section \<open>Page names\<close>

lemma switch_page_invalid:
  "lower page \<notin> set get_valid_pages \<Longrightarrow>
     \<exists>msg. switch_page resolve page h = (Inr (VStr (''Error: '' @ msg)), h)"
  by (simp add: switch_page_def get_valid_pages_def Let_def)

lemma switch_page_requests:
  "requests (snd (switch_page resolve page h)) = requests h \<or>
   (lower page \<in> set get_valid_pages \<and>
    requests (snd (switch_page resolve page h)) = requests h @ [lower page])"
proof (cases resolve)
  case Handle
  show ?thesis
  proof (cases "lower page \<in> set get_valid_pages")
    case True
    obtain r h1 where o: "OpenPage Handle (lower page) h = (r, h1)" by (cases "OpenPage Handle (lower page) h")
    then have "requests h1 = requests h @ [lower page]"
      using OpenPage_requests [of "lower page" h] by simp
    with True o Handle show ?thesis
      by (simp add: switch_page_def get_valid_pages_def Let_def split: sum.splits)
  next
    case False
    then show ?thesis by (simp add: switch_page_def get_valid_pages_def Let_def)
  qed
next
  case (Val v)
  then show ?thesis by (simp add: switch_page_def Let_def)
qed

lemma ensure_page_requests:
  assumes "extract_resolve_object args kwargs = Some Handle"
      and "fault h = None"
      and "lower (active_page h) \<noteq> lower page_name"
  shows "requests (snd (OpenPage Handle page_name h)) = requests h @ [page_name] \<and>
         (fst (OpenPage Handle page_name h) = Inr True \<longrightarrow>
            requests (snd (ensure_page page_name func_name func args kwargs h))
              = requests (snd (func args kwargs (snd (OpenPage Handle page_name h))))
                  @ [active_page h]) \<and>
         (fst (OpenPage Handle page_name h) \<noteq> Inr True \<longrightarrow>
            snd (ensure_page page_name func_name func args kwargs h)
              = snd (OpenPage Handle page_name h))"
proof (intro conjI impI)
  show "requests (snd (OpenPage Handle page_name h)) = requests h @ [page_name]"
    by (rule OpenPage_requests)
next
  assume t: "fst (OpenPage Handle page_name h) = Inr True"
  obtain h1 where o1: "OpenPage Handle page_name h = (Inr True, h1)"
    using t by (cases "OpenPage Handle page_name h") simp
  obtain out h2 where f: "func args kwargs h1 = (out, h2)" by (cases "func args kwargs h1")
  obtain r3 h3 where o3: "OpenPage Handle (active_page h) h2 = (r3, h3)"
    by (cases "OpenPage Handle (active_page h) h2")
  then have q3: "requests h3 = requests h2 @ [active_page h]"
    using OpenPage_requests [of "active_page h" h2] by simp
  have "snd (ensure_page page_name func_name func args kwargs h) = h3"
    using assms o1 f o3
    by (simp add: ensure_page_def page_management_def call_and_restore_def
        split: sum.splits)
  with q3 o1 f
  show "requests (snd (ensure_page page_name func_name func args kwargs h))
          = requests (snd (func args kwargs (snd (OpenPage Handle page_name h))))
              @ [active_page h]"
    by simp
next
  assume n: "fst (OpenPage Handle page_name h) \<noteq> Inr True"
  obtain r1 h1 where o1: "OpenPage Handle page_name h = (r1, h1)"
    by (cases "OpenPage Handle page_name h")
  with n have r1: "r1 \<noteq> Inr True" by simp
  have "snd (ensure_page page_name func_name func args kwargs h) = h1"
    using assms o1 r1
    by (simp add: ensure_page_def page_management_def split: sum.splits)
  with o1
  show "snd (ensure_page page_name func_name func args kwargs h)
          = snd (OpenPage Handle page_name h)"
    by simp
qed

text \<open>
  C7, as the code has it. \<^verbatim>\<open>switch_page\<close> checks the lower-cased name against
  the closed set before it calls the host: for a name outside the set it returns an error
  string and leaves the host untouched, and the only \<^verbatim>\<open>OpenPage\<close> call it ever
  makes carries the lower-cased name, a member of the set. The page-state guard has no
  such check. When a switch is needed, it calls \<^verbatim>\<open>OpenPage\<close> with its required
  page name as given, whatever the name is, and the wrapped function runs on the host
  which that call left. When that call returned true, the guard's one further request,
  made after the wrapped function, is \<^verbatim>\<open>OpenPage\<close> with the page name the host
  had reported; otherwise it makes no further request and the function is not run.
\<close>

theorem switch_page_validates_guard_does_not:
  "(lower page \<notin> set get_valid_pages \<longrightarrow>
      (\<exists>msg. switch_page resolve page h = (Inr (VStr (''Error: '' @ msg)), h))) \<and>
   (requests (snd (switch_page resolve page h)) = requests h \<or>
      (lower page \<in> set get_valid_pages \<and>
       requests (snd (switch_page resolve page h)) = requests h @ [lower page])) \<and>
   (extract_resolve_object args kwargs = Some Handle \<and> fault h = None \<and>
    lower (active_page h) \<noteq> lower page_name \<longrightarrow>
      requests (snd (OpenPage Handle page_name h)) = requests h @ [page_name] \<and>
      (fst (OpenPage Handle page_name h) = Inr True \<longrightarrow>
         requests (snd (ensure_page page_name func_name func args kwargs h))
           = requests (snd (func args kwargs (snd (OpenPage Handle page_name h))))
               @ [active_page h]) \<and>
      (fst (OpenPage Handle page_name h) \<noteq> Inr True \<longrightarrow>
         snd (ensure_page page_name func_name func args kwargs h)
           = snd (OpenPage Handle page_name h)))"
proof (intro conjI)
  show "lower page \<notin> set get_valid_pages \<longrightarrow>
          (\<exists>msg. switch_page resolve page h = (Inr (VStr (''Error: '' @ msg)), h))"
    using switch_page_invalid [of page resolve h] by (rule impI)
  show "requests (snd (switch_page resolve page h)) = requests h \<or>
          (lower page \<in> set get_valid_pages \<and>
           requests (snd (switch_page resolve page h)) = requests h @ [lower page])"
    by (rule switch_page_requests)
  show "extract_resolve_object args kwargs = Some Handle \<and> fault h = None \<and>
        lower (active_page h) \<noteq> lower page_name \<longrightarrow>
          requests (snd (OpenPage Handle page_name h)) = requests h @ [page_name] \<and>
          (fst (OpenPage Handle page_name h) = Inr True \<longrightarrow>
             requests (snd (ensure_page page_name func_name func args kwargs h))
               = requests (snd (func args kwargs (snd (OpenPage Handle page_name h))))
                   @ [active_page h]) \<and>
          (fst (OpenPage Handle page_name h) \<noteq> Inr True \<longrightarrow>
             snd (ensure_page page_name func_name func args kwargs h)
               = snd (OpenPage Handle page_name h))"
  proof
    assume a: "extract_resolve_object args kwargs = Some Handle \<and> fault h = None \<and>
               lower (active_page h) \<noteq> lower page_name"
    then have 1: "extract_resolve_object args kwargs = Some Handle"
      and 2: "fault h = None" and 3: "lower (active_page h) \<noteq> lower page_name"
      by simp_all
    show "requests (snd (OpenPage Handle page_name h)) = requests h @ [page_name] \<and>
          (fst (OpenPage Handle page_name h) = Inr True \<longrightarrow>
             requests (snd (ensure_page page_name func_name func args kwargs h))
               = requests (snd (func args kwargs (snd (OpenPage Handle page_name h))))
                   @ [active_page h]) \<and>
          (fst (OpenPage Handle page_name h) \<noteq> Inr True \<longrightarrow>
             snd (ensure_page page_name func_name func args kwargs h)
               = snd (OpenPage Handle page_name h))"
      by (rule ensure_page_requests [OF 1 2 3])
  qed
qed

theorem switch_page_validates_guard_does_not_witness:
  "switch_page Handle ''render'' edit_host =
     (Inr (VStr (''Error: Invalid page '' @ apostrophe @ ''render'' @ apostrophe
          @ ''. Valid pages are: media, cut, edit, fusion, color, fairlight, deliver'')),
      edit_host) \<and>
   requests (snd (switch_page Handle ''Color'' edit_host)) = [''color''] \<and>
   requests (snd (ensure_page ''fusion'' ''op'' (\<lambda>args kwargs h. (Inr VNone, h))
                    [Handle] [] edit_host)) = [''fusion'', ''edit'']"
  using switch_page_validates_guard_does_not
    [where page = "''render''" and resolve = Handle and h = edit_host and args = "[Handle]"
       and kwargs = "[]" and page_name = "''fusion''"
       and func = "\<lambda>args kwargs h. (Inr VNone, h)" and func_name = "''op''"]
  by (simp add: switch_page_def Let_def lower_def lower_char_def edit_host_def
      extract_first_positional ensure_page_def page_management_def call_and_restore_def)

text \<open>
  A guard for the name "render", which is outside the set, asks the host to open
  "render".
\<close>

theorem guard_opens_unvalidated_page:
  "lower ''render'' \<notin> set get_valid_pages \<and>
   requests (snd (ensure_page ''render'' ''op'' (\<lambda>args kwargs h. (Inr VNone, h))
                    [Handle] [] edit_host)) = [''render'', ''edit'']"
  by (simp add: get_valid_pages_def extract_first_positional edit_host_def lower_def
      lower_char_def ensure_page_def page_management_def call_and_restore_def)

section \<open>Operations without a host\<close>

text \<open>
  C5, as the code has it. With the shared handle \<^verbatim>\<open>None\<close> the registered
  operations \<^verbatim>\<open>set_cache_mode\<close> and \<^verbatim>\<open>switch_page\<close> return, without
  raising and without touching the host, the plain string
  "Error: Not connected to DaVinci Resolve"; and \<^verbatim>\<open>validate_resolve_connection\<close>
  raises the validation layer's failure with the text "Not connected to DaVinci Resolve".
\<close>

theorem null_handle_legacy_error:
  "set_cache_mode (Val VNone) mode h
     = (Inr (VStr ''Error: Not connected to DaVinci Resolve''), h) \<and>
   switch_page (Val VNone) page h
     = (Inr (VStr ''Error: Not connected to DaVinci Resolve''), h) \<and>
   validate_resolve_connection (Val VNone) h
     = Inl (Exn ValidationError ''Not connected to DaVinci Resolve'')"
  by (simp add: set_cache_mode_def switch_page_def validate_resolve_connection_def)

text \<open>
  The result of \<^verbatim>\<open>set_cache_mode\<close> without a host is a string, not a mapping
  with \<^verbatim>\<open>success\<close> false and the code \<^verbatim>\<open>CONNECTION_ERROR\<close>.
\<close>

theorem null_handle_not_connection_envelope:
  "set_cache_mode (Val VNone) ''On'' edit_host
     = (Inr (VStr ''Error: Not connected to DaVinci Resolve''), edit_host) \<and>
   \<not> connection_error_envelope (VStr ''Error: Not connected to DaVinci Resolve'')"
  by (simp add: set_cache_mode_def)

text \<open>
  A guarded operation that is called with keyword arguments only, none of them named
  \<^verbatim>\<open>resolve\<close>, as the operations of \<^verbatim>\<open>api/fusion_operations_clean.py\<close> are
  (they take the handle from the enclosing scope): the guard finds no handle among the
  arguments and returns its error mapping without running the function.
\<close>

theorem guard_without_resolve_argument:
  assumes "map_of kwargs ''resolve'' = None"
  shows "ensure_page page_name func_name func [] kwargs h =
           (Inr (VDict [(''error'', VStr (''Could not find '' @ apostrophe @ ''resolve''
                          @ apostrophe @ '' object for function '' @ func_name))]), h)"
  using assms by (simp add: ensure_page_def extract_resolve_object_def error_dict_def)

theorem guard_without_resolve_argument_witness:
  "ensure_page ''fusion'' ''add_fusion_node''
     (\<lambda>args kwargs h. (Inr (VStr ''ran''), h))
     [] [(''node_type'', Val (VStr ''Merge''))] edit_host =
     (Inr (VDict [(''error'', VStr (''Could not find '' @ apostrophe @ ''resolve''
                    @ apostrophe @ '' object for function add_fusion_node''))]), edit_host)"
  using guard_without_resolve_argument
    [of "[(''node_type'', Val (VStr ''Merge''))]" "''fusion''" "''add_fusion_node''"
        "\<lambda>args kwargs h. (Inr (VStr ''ran''), h)" edit_host]
  by simp

end
